theory Spec2Isabelle
  imports Main
begin

section \<open>The Vault secret helper: values, environment, cache\<close>

text \<open>
  The helper under verification is the module that exports \<open>getSecret\<close> and
  \<open>clearVaultCache\<close>. It reads \<open>process.env\<close>, talks to a Vault server through
  \<open>fetch\<close>, reads the clock through \<open>Date.now()\<close> and keeps a module-level \<open>Map\<close>
  as cache. In the model every one of these is explicit: the environment, the \<open>fetch\<close>
  function and the two clock readings are arguments, the cache is passed in and returned,
  and the calls to \<open>fetch\<close> and \<open>console.error\<close> are returned as a trace.
  One call of \<open>getSecret\<close> is modelled from start to end; calls are sequenced by
  handing the cache returned by one to the next.
\<close>

subsection \<open>JavaScript values that a response body can hold\<close>

text \<open>
  \<open>res.json()\<close> yields an arbitrary JSON value, and the code declares it \<open>any\<close>.
  A number is represented by the two observations the code can make of it: whether it
  is zero (the only falsy numbers JSON can produce) and its rendering by \<open>String\<close>.
  \<open>JNative\<close> stands for a built-in function reached through a prototype, with its
  rendering; it never occurs inside a parsed body, and an environment variable is never
  one. \<open>undefined\<close> is \<open>None\<close> at the
  places where an expression may yield it.
\<close>

datatype jsval =
    JNull
  | JBool bool
  | JNum bool string
  | JStr string
  | JArr "jsval list"
  | JObj "(string \<times> jsval) list"
  | JNative string

text \<open>Truthiness, as tested by \<open>!x\<close>, \<open>x && y\<close> and \<open>if (x)\<close>.\<close>

fun truthy :: "jsval \<Rightarrow> bool" where
  "truthy JNull = False"
| "truthy (JBool b) = b"
| "truthy (JNum zero s) = (\<not> zero)"
| "truthy (JStr s) = (s \<noteq> [])"
| "truthy (JArr xs) = True"
| "truthy (JObj kvs) = True"
| "truthy (JNative s) = True"

fun truthy_opt :: "jsval option \<Rightarrow> bool" where
  "truthy_opt None = False"
| "truthy_opt (Some v) = truthy v"

text \<open>An environment variable is a string or \<open>undefined\<close>; it is truthy when set and non-empty.\<close>

fun truthy_str :: "string option \<Rightarrow> bool" where
  "truthy_str None = False"
| "truthy_str (Some s) = (s \<noteq> [])"

text \<open>
  The property reads \<open>x.data\<close>, \<open>x.auth\<close> and \<open>x.client_token\<close>: on a parsed JSON
  object they are the own property of that name (its fields are listed once each; of a
  repeated key the first binding counts); no built-in prototype has a member of one of
  these names, so on every other value they are \<open>undefined\<close>.
\<close>

fun own_prop :: "jsval \<Rightarrow> string \<Rightarrow> jsval option" where
  "own_prop (JObj kvs) k = map_of kvs k"
| "own_prop v k = None"

text \<open>
  \<open>data[keyName]\<close> with an arbitrary key name: the own property where there is one,
  otherwise whatever the value inherits or has as an exotic property (\<open>constructor\<close>,
  \<open>toString\<close>, the \<open>length\<close> and the indices of an array or a string). That second
  part is the parameter \<open>builtin\<close>.
\<close>

definition get_prop :: "(jsval \<Rightarrow> string \<Rightarrow> jsval option) \<Rightarrow> jsval \<Rightarrow> string \<Rightarrow> jsval option" where
  "get_prop builtin v k = (case own_prop v k of Some x \<Rightarrow> Some x | None \<Rightarrow> builtin v k)"

text \<open>Optional chaining \<open>v?.k\<close>: \<open>undefined\<close> when \<open>v\<close> is \<open>null\<close> or \<open>undefined\<close>.\<close>

fun opt_chain :: "jsval option \<Rightarrow> string \<Rightarrow> jsval option" where
  "opt_chain None k = None"
| "opt_chain (Some JNull) k = None"
| "opt_chain (Some v) k = own_prop v k"

text \<open>
  \<open>String(v)\<close> and the conversion inside a template literal. \<open>None\<close> is the
  \<open>TypeError\<close> raised for an object that cannot be converted to a primitive: a parsed
  object with an own field \<open>toString\<close> hides \<open>Object.prototype.toString\<close> by a value
  that is not callable, and \<open>valueOf\<close> gives no primitive either. An array is joined
  with commas, \<open>null\<close> elements rendering as the empty string.
\<close>

fun join_comma :: "string option list \<Rightarrow> string option" where
  "join_comma [] = Some []"
| "join_comma [a] = a"
| "join_comma (a # b # rest) =
     (case a of None \<Rightarrow> None
      | Some s \<Rightarrow> (case join_comma (b # rest) of None \<Rightarrow> None | Some t \<Rightarrow> Some (s @ '','' @ t)))"

fun js_String :: "jsval \<Rightarrow> string option" where
  "js_String JNull = Some ''null''"
| "js_String (JBool b) = Some (if b then ''true'' else ''false'')"
| "js_String (JNum zero s) = Some s"
| "js_String (JStr s) = Some s"
| "js_String (JNative s) = Some s"
| "js_String (JObj kvs) =
     (if map_of kvs ''toString'' \<noteq> None then None else Some ''[object Object]'')"
| "js_String (JArr xs) =
     join_comma (map (\<lambda>x. if x = JNull then Some [] else js_String x) xs)"

subsection \<open>Environment, requests, responses, errors\<close>

text \<open>
  The variables that are set in \<open>process.env\<close>. The names \<open>VAULT_ADDR\<close>,
  \<open>VAULT_TOKEN\<close>, \<open>VAULT_ROLE_ID\<close> and \<open>VAULT_SECRET_ID\<close> are read from it
  directly; the read \<open>process.env[keyName]\<close> with an arbitrary key name is
  \<open>env_read\<close> below.
\<close>

type_synonym environment = "string \<rightharpoonup> string"

datatype http_method = GET | POST

record request =
  req_method :: http_method
  req_url :: string
  req_headers :: "(string \<times> string) list"
  req_body :: "jsval option"

text \<open>
  A response as far as the code reads it: the status, what \<open>res.json()\<close> resolves to
  and what \<open>res.text()\<close> resolves to (\<open>None\<close> when that promise rejects).
  \<open>req_body\<close> is the value handed to \<open>JSON.stringify\<close>.
\<close>

record response =
  resp_status :: nat
  resp_json :: "jsval option"
  resp_text :: "string option"

definition ok :: "response \<Rightarrow> bool" where
  "ok r = (200 \<le> resp_status r \<and> resp_status r \<le> 299)"

text \<open>\<open>fetch\<close>: \<open>None\<close> when the promise rejects (no connection, bad URL).\<close>

type_synonym fetcher = "request \<Rightarrow> response option"

datatype vault_error =
    AddrNotConfigured
  | AppRoleLoginFailed nat
  | AppRoleNoClientToken
  | NoVaultAuth
  | SecretFetchFailed nat string
  | FetchRejected
  | TypeError

datatype event = Fetch request | ConsoleError vault_error

fun fetch_calls :: "event list \<Rightarrow> request list" where
  "fetch_calls [] = []"
| "fetch_calls (Fetch rq # es) = rq # fetch_calls es"
| "fetch_calls (ConsoleError e # es) = fetch_calls es"

text \<open>A computation inside \<open>fetchFromVault\<close>: the requests it made, and an error or a value.\<close>

type_synonym 'a io = "request list \<times> (vault_error + 'a)"

definition bind_io :: "'a io \<Rightarrow> ('a \<Rightarrow> 'b io) \<Rightarrow> 'b io" where
  "bind_io m f =
     (case m of
        (calls, Inl e) \<Rightarrow> (calls, Inl e)
      | (calls, Inr x) \<Rightarrow> (case f x of (calls', r) \<Rightarrow> (calls @ calls', r)))"

subsection \<open>The cache\<close>

text \<open>
  The type \<open>Cached\<close>. The source declares \<open>value\<close> as \<open>string | null\<close>; at run
  time it holds whatever \<open>getSecret\<close> stored, which for a key name that
  \<open>process.env\<close> inherits is not a string, so the field is a JavaScript value, and
  \<open>None\<close> is \<open>null\<close>.
\<close>

record cached =
  "value" :: "jsval option"
  expiresAt :: int

type_synonym cache = "string \<rightharpoonup> cached"

definition cacheKey :: "string \<Rightarrow> string \<Rightarrow> string" where
  "cacheKey path keyName = path @ ''#'' @ keyName"

definition clearVaultCache :: "cache \<Rightarrow> cache" where
  "clearVaultCache c = Map.empty"

section \<open>fetchFromVault\<close>

text \<open>\<open>addr.replace(/\/$/, "")\<close> drops one trailing slash; \<open>path.replace(/^\/+/, "")\<close> drops all leading ones.\<close>

definition strip_trailing_slash :: "string \<Rightarrow> string" where
  "strip_trailing_slash s = (if s \<noteq> [] \<and> last s = CHR ''/'' then butlast s else s)"

definition strip_leading_slashes :: "string \<Rightarrow> string" where
  "strip_leading_slashes s = dropWhile (\<lambda>c. c = CHR ''/'') s"

text \<open>
  The object built from environment variables for the login body; \<open>JSON.stringify\<close>
  leaves out a property whose value is \<open>undefined\<close>.
\<close>

fun defined_fields :: "(string \<times> string option) list \<Rightarrow> (string \<times> jsval) list" where
  "defined_fields [] = []"
| "defined_fields ((k, None) # rest) = defined_fields rest"
| "defined_fields ((k, Some s) # rest) = (k, JStr s) # defined_fields rest"

definition login_request :: "string \<Rightarrow> string option \<Rightarrow> string option \<Rightarrow> request" where
  "login_request addr role_id secret_id =
     \<lparr> req_method = POST,
       req_url = strip_trailing_slash addr @ ''/v1/auth/approle/login'',
       req_headers = [(''Content-Type'', ''application/json'')],
       req_body = Some (JObj (defined_fields [(''role_id'', role_id), (''secret_id'', secret_id)])) \<rparr>"

definition read_request :: "string \<Rightarrow> string \<Rightarrow> string \<Rightarrow> request" where
  "read_request addr token path =
     \<lparr> req_method = GET,
       req_url = strip_trailing_slash addr @ ''/v1/'' @ strip_leading_slashes path,
       req_headers = [(''Authorization'', ''Bearer '' @ token), (''Accept'', ''application/json'')],
       req_body = None \<rparr>"

text \<open>The AppRole exchange, the body of the \<open>if\<close> that starts with \<open>approleUrl\<close>: it yields the new value of \<open>token\<close>.\<close>

definition approle_login :: "fetcher \<Rightarrow> string \<Rightarrow> string option \<Rightarrow> string option \<Rightarrow> (jsval option) io" where
  "approle_login fetch addr role_id secret_id =
     (let rq = login_request addr role_id secret_id in
      case fetch rq of
        None \<Rightarrow> ([rq], Inl FetchRejected)
      | Some resp \<Rightarrow>
          if \<not> ok resp then ([rq], Inl (AppRoleLoginFailed (resp_status resp)))
          else
            let body = (case resp_json resp of None \<Rightarrow> JObj [] | Some b \<Rightarrow> b);
                token = opt_chain (opt_chain (Some body) ''auth'') ''client_token''
            in if \<not> truthy_opt token then ([rq], Inl AppRoleNoClientToken)
               else ([rq], Inr token))"

text \<open>The envelope handling at the end of \<open>fetchFromVault\<close> (KV v2 nests \<open>data\<close> twice, KV v1 once).\<close>

definition unwrap_data :: "jsval \<Rightarrow> jsval" where
  "unwrap_data data =
     (case (if truthy data then own_prop data ''data'' else None) of
        None \<Rightarrow> data
      | Some d1 \<Rightarrow>
          if \<not> truthy d1 then data
          else (case own_prop d1 ''data'' of
                  None \<Rightarrow> d1
                | Some d2 \<Rightarrow> if truthy d2 then d2 else d1))"

text \<open>The authenticated read, from the construction of \<open>url\<close> to the end of \<open>fetchFromVault\<close>.\<close>

definition read_secret :: "fetcher \<Rightarrow> string \<Rightarrow> jsval \<Rightarrow> string \<Rightarrow> jsval io" where
  "read_secret fetch addr token path =
     (case js_String token of
        None \<Rightarrow> ([], Inl TypeError)
      | Some tok \<Rightarrow>
          (let rq = read_request addr tok path in
           (case fetch rq of
              None \<Rightarrow> ([rq], Inl FetchRejected)
            | Some res \<Rightarrow>
                (if \<not> ok res then
                   ([rq], Inl (SecretFetchFailed (resp_status res)
                                 (case resp_text res of None \<Rightarrow> [] | Some t \<Rightarrow> t)))
                 else
                   (let data = (case resp_json res of None \<Rightarrow> JObj [] | Some d \<Rightarrow> d)
                    in ([rq], Inr (unwrap_data data)))))))"

definition fetchFromVault :: "environment \<Rightarrow> fetcher \<Rightarrow> string \<Rightarrow> jsval io" where
  "fetchFromVault env fetch path =
     (case env ''VAULT_ADDR'' of
        None \<Rightarrow> ([], Inl AddrNotConfigured)
      | Some addr \<Rightarrow>
          if addr = [] then ([], Inl AddrNotConfigured)
          else
            bind_io
              (if \<not> truthy_str (env ''VAULT_TOKEN'') \<and> truthy_str (env ''VAULT_ROLE_ID'')
                    \<and> truthy_str (env ''VAULT_SECRET_ID'')
               then approle_login fetch addr (env ''VAULT_ROLE_ID'') (env ''VAULT_SECRET_ID'')
               else ([], Inr (map_option JStr (env ''VAULT_TOKEN''))))
              (\<lambda>token.
                 case token of
                   None \<Rightarrow> ([], Inl NoVaultAuth)
                 | Some t \<Rightarrow>
                     if \<not> truthy t then ([], Inl NoVaultAuth)
                     else read_secret fetch addr t path))"

section \<open>getSecret\<close>

text \<open>
  The expression that computes \<open>value\<close> from the fetched collection:
  \<open>(data && typeof data[keyName] !== "undefined") ? String(data[keyName]) : null\<close>.
  \<open>Inr None\<close> is \<open>null\<close>.
\<close>

definition read_key :: "(jsval \<Rightarrow> string \<Rightarrow> jsval option) \<Rightarrow> jsval \<Rightarrow> string \<Rightarrow> vault_error + jsval option" where
  "read_key builtin data keyName =
     (if \<not> truthy data then Inr None
      else case get_prop builtin data keyName of
             None \<Rightarrow> Inr None
           | Some v \<Rightarrow> (case js_String v of None \<Rightarrow> Inl TypeError | Some s \<Rightarrow> Inr (Some (JStr s))))"

text \<open>
  \<open>process.env[keyName] ?? null\<close>. A variable that is set yields its string. For a
  name that is not set the lookup goes on to what \<open>process.env\<close> inherits, the
  members of \<open>Object.prototype\<close> (\<open>constructor\<close>, \<open>toString\<close>, \<open>valueOf\<close>,
  \<open>hasOwnProperty\<close>, \<open>__proto__\<close> and the like): the parameter \<open>inherited\<close>
  gives the member for such a name and \<open>None\<close> for every other. \<open>?? null\<close> turns
  \<open>undefined\<close> and \<open>null\<close> into \<open>null\<close>.
\<close>

fun or_null :: "jsval option \<Rightarrow> jsval option" where
  "or_null None = None"
| "or_null (Some JNull) = None"
| "or_null (Some v) = Some v"

definition env_read :: "(string \<Rightarrow> jsval option) \<Rightarrow> environment \<Rightarrow> string \<Rightarrow> jsval option" where
  "env_read inherited env keyName =
     or_null (case env keyName of Some s \<Rightarrow> Some (JStr s) | None \<Rightarrow> inherited keyName)"

text \<open>
  The first two statements of the \<open>try\<close> block, the part of it that can throw:
  the fetch and the computation of \<open>value\<close>.
\<close>

definition remote_value ::
  "(jsval \<Rightarrow> string \<Rightarrow> jsval option) \<Rightarrow> environment \<Rightarrow> fetcher \<Rightarrow> string \<Rightarrow> string \<Rightarrow> (jsval option) io" where
  "remote_value builtin env fetch secretPath keyName =
     bind_io (fetchFromVault env fetch secretPath) (\<lambda>data. ([], read_key builtin data keyName))"

text \<open>The test \<open>cached && cached.expiresAt > now\<close>: the entry that a call at \<open>now\<close> may serve.\<close>

definition live_entry :: "cache \<Rightarrow> string \<Rightarrow> int \<Rightarrow> cached option" where
  "live_entry cache k now =
     (case cache k of
        None \<Rightarrow> None
      | Some c \<Rightarrow> if expiresAt c > now then Some c else None)"

text \<open>
  \<open>getSecret\<close>. \<open>ttl\<close> is the module constant \<open>CACHE_TTL_MS\<close>, fixed when the module
  is loaded (300000 unless \<open>VAULT_CACHE_TTL_MS\<close> sets it), in milliseconds like the
  clock; \<open>now\<close> is the reading of \<open>Date.now()\<close> at entry and \<open>later\<close> the reading
  taken when the cache entry is written. The result is what the returned promise settles
  to (\<open>Inl\<close> would be a rejection, \<open>Inr None\<close> is \<open>null\<close>), the cache afterwards, and
  the trace of \<open>fetch\<close> and \<open>console.error\<close> calls. No other call runs between the
  entry and the return of this one.
\<close>

definition getSecret ::
  "(jsval \<Rightarrow> string \<Rightarrow> jsval option) \<Rightarrow> (string \<Rightarrow> jsval option) \<Rightarrow> int \<Rightarrow> environment \<Rightarrow> fetcher
     \<Rightarrow> int \<Rightarrow> int \<Rightarrow> cache \<Rightarrow> string \<Rightarrow> string
     \<Rightarrow> (vault_error + jsval option) \<times> cache \<times> event list" where
  "getSecret builtin inherited ttl env fetch now later cache secretPath keyName =
     (let k = cacheKey secretPath keyName in
      case live_entry cache k now of
        Some c \<Rightarrow> (Inr (value c), cache, [])
      | None \<Rightarrow>
          (case remote_value builtin env fetch secretPath keyName of
             (calls, Inr v) \<Rightarrow>
               let cache' = cache(k \<mapsto> \<lparr> value = v, expiresAt = later + ttl \<rparr>) in
               if v = None then
                 (let envVal = env_read inherited env keyName in
                  if truthy_opt envVal then (Inr envVal, cache', map Fetch calls)
                  else (Inr v, cache', map Fetch calls))
               else (Inr v, cache', map Fetch calls)
           | (calls, Inl e) \<Rightarrow>
               let envVal = env_read inherited env keyName in
               (Inr envVal,
                cache(k \<mapsto> \<lparr> value = envVal, expiresAt = later + min ttl (30 * 1000) \<rparr>),
                map Fetch calls @ [ConsoleError e])))"

text \<open>
  A store is configured when an address is set together with a static token or a
  role-id/secret-id pair: the configurations in which a cache miss reaches the network.
\<close>

definition store_configured :: "environment \<Rightarrow> bool" where
  "store_configured env =
     (truthy_str (env ''VAULT_ADDR'')
      \<and> (truthy_str (env ''VAULT_TOKEN'')
         \<or> (truthy_str (env ''VAULT_ROLE_ID'') \<and> truthy_str (env ''VAULT_SECRET_ID''))))"

section \<open>Scenarios\<close>

text \<open>
  Concrete environments and stores on which the results below are run. \<open>no_builtin\<close>
  is the built-in property table seen by key names that no prototype defines and that
  are neither \<open>length\<close> nor an index, such as the key names used in the scenarios.
  \<open>object_prototype\<close> lists what \<open>process.env\<close> inherits, a function rendered the
  way Node prints it, and under \<open>__proto__\<close> the prototype object itself.
\<close>

definition no_builtin :: "jsval \<Rightarrow> string \<Rightarrow> jsval option" where
  "no_builtin v k = None"

definition object_prototype :: "string \<Rightarrow> jsval option" where
  "object_prototype k =
     (if k = ''constructor'' then Some (JNative ''function Object() { [native code] }'')
      else if k = ''__proto__'' then Some (JObj [])
      else if k \<in> set [''hasOwnProperty'', ''isPrototypeOf'', ''propertyIsEnumerable'',
                        ''toLocaleString'', ''toString'', ''valueOf'', ''__defineGetter__'',
                        ''__defineSetter__'', ''__lookupGetter__'', ''__lookupSetter__'']
      then Some (JNative (''function '' @ k @ ''() { [native code] }''))
      else None)"

definition env_approle :: environment where
  "env_approle =
     [''VAULT_ADDR'' \<mapsto> ''http://vault:8200'', ''VAULT_ROLE_ID'' \<mapsto> ''r'',
      ''VAULT_SECRET_ID'' \<mapsto> ''s'']"

definition env_token :: environment where
  "env_token = [''VAULT_ADDR'' \<mapsto> ''http://vault:8200'', ''VAULT_TOKEN'' \<mapsto> ''t'']"

definition env_token_KV :: environment where
  "env_token_KV = env_token(''K'' \<mapsto> ''V'')"

definition env_both :: environment where
  "env_both = env_approle(''VAULT_TOKEN'' \<mapsto> ''hvs.static-7Qx'')"

definition env_only_KV :: environment where
  "env_only_KV = [''K'' \<mapsto> ''V'']"

definition reply :: "nat \<Rightarrow> jsval \<Rightarrow> response" where
  "reply st b = \<lparr> resp_status = st, resp_json = Some b, resp_text = None \<rparr>"

text \<open>A store that rejects the login with HTTP 400.\<close>

definition vault_login_400 :: fetcher where
  "vault_login_400 rq = Some (reply 400 (JObj [(''errors'', JArr [JStr ''invalid role or secret ID''])]))"

text \<open>A KV v2 store whose collection is empty: \<open>{data:{data:{}, metadata:{}}}\<close>.\<close>

definition vault_v2_empty :: fetcher where
  "vault_v2_empty rq = Some (reply 200 (JObj [(''data'', JObj [(''data'', JObj []), (''metadata'', JObj [])])]))"

text \<open>
  Stores answering \<open>{data:{data:{K:"V"}}}\<close>, \<open>{data:{K:"V"}}\<close>,
  \<open>{data:{data:"V"}}\<close> and \<open>{data:{K:"V", data:"x"}}\<close>.
\<close>

definition vault_v2_KV :: fetcher where
  "vault_v2_KV rq = Some (reply 200 (JObj [(''data'', JObj [(''data'', JObj [(''K'', JStr ''V'')])])]))"

definition vault_v1_KV :: fetcher where
  "vault_v1_KV rq = Some (reply 200 (JObj [(''data'', JObj [(''K'', JStr ''V'')])]))"

definition vault_v1_data :: fetcher where
  "vault_v1_data rq = Some (reply 200 (JObj [(''data'', JObj [(''data'', JStr ''V'')])]))"

definition vault_v1_KV_data :: fetcher where
  "vault_v1_KV_data rq =
     Some (reply 200 (JObj [(''data'', JObj [(''K'', JStr ''V''), (''data'', JStr ''x'')])]))"

text \<open>A store that cannot be reached.\<close>

definition vault_down :: fetcher where
  "vault_down rq = None"

text \<open>A store holding \<open>{c:"one"}\<close> at path \<open>a#b\<close> and \<open>{"b#c":"two"}\<close> everywhere else.\<close>

definition vault_two_paths :: fetcher where
  "vault_two_paths rq =
     (if req_url rq = ''http://vault:8200/v1/a#b''
      then Some (reply 200 (JObj [(''data'', JObj [(''c'', JStr ''one'')])]))
      else Some (reply 200 (JObj [(''data'', JObj [(''b#c'', JStr ''two'')])])))"

lemmas scenario_defs =
  no_builtin_def object_prototype_def env_approle_def env_token_def env_token_KV_def env_both_def
  env_only_KV_def reply_def vault_login_400_def vault_v2_empty_def vault_v2_KV_def vault_v1_KV_def
  vault_v1_data_def vault_v1_KV_data_def vault_down_def vault_two_paths_def

lemmas model_defs =
  getSecret_def live_entry_def remote_value_def read_key_def get_prop_def env_read_def
  fetchFromVault_def bind_io_def approle_login_def read_secret_def unwrap_data_def
  login_request_def read_request_def strip_trailing_slash_def strip_leading_slashes_def ok_def
  cacheKey_def clearVaultCache_def store_configured_def Let_def

section \<open>Basic facts\<close>

lemma fetch_calls_append: "fetch_calls (xs @ ys) = fetch_calls xs @ fetch_calls ys"
  by (induction xs rule: fetch_calls.induct) simp_all

lemma fetch_calls_map_Fetch: "fetch_calls (map Fetch calls) = calls"
  by (induction calls) simp_all

lemma live_entry_hit:
  "cache k = Some c \<Longrightarrow> expiresAt c > now \<Longrightarrow> live_entry cache k now = Some c"
  by (simp add: live_entry_def)

lemma live_entry_expired:
  "cache k = Some c \<Longrightarrow> expiresAt c \<le> now \<Longrightarrow> live_entry cache k now = None"
  by (simp add: live_entry_def)

lemma live_entry_absent: "cache k = None \<Longrightarrow> live_entry cache k now = None"
  by (simp add: live_entry_def)

lemma live_entry_SomeD:
  "live_entry cache k now = Some c \<Longrightarrow> cache k = Some c \<and> expiresAt c > now"
  by (auto simp: live_entry_def split: option.splits if_splits)

lemma env_read_set: "env k = Some v \<Longrightarrow> env_read H env k = Some (JStr v)"
  by (simp add: env_read_def)

lemma env_read_unset: "env k = None \<Longrightarrow> H k = None \<Longrightarrow> env_read H env k = None"
  by (simp add: env_read_def)

lemma getSecret_hit:
  "live_entry cache (cacheKey p k) now = Some c \<Longrightarrow>
   getSecret B H ttl env fetch now later cache p k = (Inr (value c), cache, [])"
  by (simp add: getSecret_def)

lemma getSecret_failed:
  "live_entry cache (cacheKey p k) now = None \<Longrightarrow>
   remote_value B env fetch p k = (calls, Inl e) \<Longrightarrow>
   getSecret B H ttl env fetch now later cache p k =
     (Inr (env_read H env k),
      cache(cacheKey p k \<mapsto> \<lparr> value = env_read H env k, expiresAt = later + min ttl 30000 \<rparr>),
      map Fetch calls @ [ConsoleError e])"
  by (simp add: getSecret_def Let_def)

lemma getSecret_fetched:
  "live_entry cache (cacheKey p k) now = None \<Longrightarrow>
   remote_value B env fetch p k = (calls, Inr v) \<Longrightarrow>
   getSecret B H ttl env fetch now later cache p k =
     (Inr (if v = None \<and> truthy_opt (env_read H env k) then env_read H env k else v),
      cache(cacheKey p k \<mapsto> \<lparr> value = v, expiresAt = later + ttl \<rparr>),
      map Fetch calls)"
  by (simp add: getSecret_def Let_def)

lemma remote_value_calls: "fst (remote_value B env fetch p k) = fst (fetchFromVault env fetch p)"
  by (cases "fetchFromVault env fetch p") (auto simp: remote_value_def bind_io_def split: sum.splits)

lemma remote_value_Inl:
  "fetchFromVault env fetch p = (calls, Inl e) \<Longrightarrow> remote_value B env fetch p k = (calls, Inl e)"
  by (simp add: remote_value_def bind_io_def)

lemma remote_value_Inr:
  "fetchFromVault env fetch p = (calls, Inr data) \<Longrightarrow>
   remote_value B env fetch p k = (calls, read_key B data k)"
  by (simp add: remote_value_def bind_io_def)

lemma read_secret_calls:
  "js_String t = Some tok \<Longrightarrow> fst (read_secret fetch a t p) = [read_request a tok p]"
  by (simp add: read_secret_def Let_def split: option.splits)

lemma read_secret_success:
  "read_secret fetch a t p = (calls, Inr coll) \<Longrightarrow>
   \<exists>tok res. js_String t = Some tok \<and> calls = [read_request a tok p]
     \<and> fetch (read_request a tok p) = Some res \<and> ok res
     \<and> coll = unwrap_data (case resp_json res of None \<Rightarrow> JObj [] | Some d \<Rightarrow> d)"
  by (auto simp: read_secret_def Let_def split: option.splits if_splits)

lemma fetchFromVault_success:
  assumes "fetchFromVault env fetch p = (calls, Inr coll)"
  shows "\<exists>a tok res. calls \<noteq> [] \<and> last calls = read_request a tok p
     \<and> fetch (read_request a tok p) = Some res \<and> ok res
     \<and> coll = unwrap_data (case resp_json res of None \<Rightarrow> JObj [] | Some d \<Rightarrow> d)"
  using assms
  by (fastforce simp: fetchFromVault_def bind_io_def
      split: option.splits if_splits sum.splits prod.splits dest!: read_secret_success)

lemma approle_login_calls: "fst (approle_login fetch a r s) \<noteq> []"
  by (simp add: approle_login_def Let_def split: option.splits)

lemma bind_io_nonempty: "fst m \<noteq> [] \<Longrightarrow> fst (bind_io m f) \<noteq> []"
  by (cases m) (auto simp: bind_io_def split: sum.splits prod.splits)

lemma fetchFromVault_configured_calls:
  assumes "store_configured env"
  shows "fst (fetchFromVault env fetch p) \<noteq> []"
proof -
  from assms obtain a where a: "env ''VAULT_ADDR'' = Some a" "a \<noteq> []"
    by (cases "env ''VAULT_ADDR''") (auto simp: store_configured_def)
  show ?thesis
  proof (cases "truthy_str (env ''VAULT_TOKEN'')")
    case True
    then obtain t where t: "env ''VAULT_TOKEN'' = Some t" "t \<noteq> []"
      by (cases "env ''VAULT_TOKEN''") auto
    have "fst (read_secret fetch a (JStr t) p) = [read_request a t p]"
      by (rule read_secret_calls) simp
    then show ?thesis
      using a t by (cases "read_secret fetch a (JStr t) p")
        (simp add: fetchFromVault_def bind_io_def)
  next
    case False
    with assms have rs: "truthy_str (env ''VAULT_ROLE_ID'')" "truthy_str (env ''VAULT_SECRET_ID'')"
      by (auto simp: store_configured_def)
    let ?m = "approle_login fetch a (env ''VAULT_ROLE_ID'') (env ''VAULT_SECRET_ID'')"
    have "fst ?m \<noteq> []" by (rule approle_login_calls)
    then show ?thesis
      using a False rs by (simp add: fetchFromVault_def bind_io_nonempty)
  qed
qed

lemma remote_value_success_calls:
  "remote_value B env fetch p k = (calls, Inr v) \<Longrightarrow> calls \<noteq> []"
  by (cases "fetchFromVault env fetch p")
     (auto simp: remote_value_def bind_io_def split: sum.splits dest: fetchFromVault_success)

lemma getSecret_miss_trace:
  assumes "live_entry cache (cacheKey p k) now = None"
  shows "snd (snd (getSecret B H ttl env fetch now later cache p k)) \<noteq> []"
    and "fetch_calls (snd (snd (getSecret B H ttl env fetch now later cache p k)))
           = fst (fetchFromVault env fetch p)"
proof -
  obtain calls r where rv: "remote_value B env fetch p k = (calls, r)"
    by (cases "remote_value B env fetch p k")
  then have calls: "calls = fst (fetchFromVault env fetch p)"
    using remote_value_calls [of B env fetch p k] by simp
  show "snd (snd (getSecret B H ttl env fetch now later cache p k)) \<noteq> []"
  proof (cases r)
    case (Inl e)
    then show ?thesis using getSecret_failed [OF assms] rv by simp
  next
    case (Inr v)
    then show ?thesis
      using getSecret_fetched [OF assms] rv remote_value_success_calls [of B env fetch p k calls v]
      by simp
  qed
  show "fetch_calls (snd (snd (getSecret B H ttl env fetch now later cache p k)))
           = fst (fetchFromVault env fetch p)"
  proof (cases r)
    case (Inl e)
    then show ?thesis
      using getSecret_failed [OF assms] rv calls by (simp add: fetch_calls_append fetch_calls_map_Fetch)
  next
    case (Inr v)
    then show ?thesis
      using getSecret_fetched [OF assms] rv calls by (simp add: fetch_calls_map_Fetch)
  qed
qed

lemma getSecret_miss_forget:
  assumes "live_entry cache (cacheKey p k) now = None"
  shows "getSecret B H ttl env fetch now later cache p k
           = getSecret B H ttl env fetch now later (cache(cacheKey p k := None)) p k"
proof -
  have "live_entry (cache(cacheKey p k := None)) (cacheKey p k) now = None"
    by (simp add: live_entry_def)
  then show ?thesis
    using assms by (simp add: getSecret_def Let_def split: prod.splits sum.splits)
qed

lemma getSecret_never_rejects:
  "\<exists>v. fst (getSecret B H ttl env fetch now later cache p k) = Inr v"
  by (simp add: getSecret_def Let_def split: option.splits prod.splits sum.splits)

text \<open>
  A key name that is not set and that \<open>process.env\<close> inherits: with no store
  address, the call for \<open>constructor\<close> returns and stores the inherited function.
\<close>

lemma inherited_member_returned:
  "getSecret no_builtin object_prototype 300000 env_only_KV vault_down 1000 1001 Map.empty
       ''any/path'' ''constructor''
     = (Inr (Some (JNative ''function Object() { [native code] }'')),
        [''any/path#constructor'' \<mapsto>
           \<lparr> value = Some (JNative ''function Object() { [native code] }''), expiresAt = 31001 \<rparr>],
        [ConsoleError AddrNotConfigured])"
  by (simp add: scenario_defs model_defs)

section \<open>Results\<close>

subsection \<open>A rejected AppRole login\<close>

text \<open>
  C1, as stated, fails. The scenario is the one the specification names: a store address
  is set, there is no static token, role-id is \<open>r\<close> and secret-id is \<open>s\<close>, and
  the login endpoint answers HTTP 400. The call does not reject: it resolves with
  \<open>null\<close>, the value of \<open>process.env[keyName] ?? null\<close> for the unset name \<open>K\<close>.
\<close>

theorem login_failure_not_propagated:
  "env_approle ''VAULT_ADDR'' = Some ''http://vault:8200''
   \<and> env_approle ''VAULT_TOKEN'' = None
   \<and> env_approle ''VAULT_ROLE_ID'' = Some ''r''
   \<and> env_approle ''VAULT_SECRET_ID'' = Some ''s''
   \<and> map_option resp_status
         (vault_login_400 (login_request ''http://vault:8200'' (Some ''r'') (Some ''s''))) = Some 400
   \<and> fst (getSecret no_builtin object_prototype 300000 env_approle vault_login_400 1000 1001 Map.empty
             ''secret/data/app'' ''K'') = Inr None"
  by (simp add: scenario_defs model_defs)

text \<open>
  C1, amended. With a store address set, no static token and a role-id/secret-id pair
  configured, a login answered with a non-success status makes \<open>fetchFromVault\<close>
  throw, and \<open>getSecret\<close> catches that error like every other: on a cache miss the
  call resolves with \<open>process.env[keyName] ?? null\<close> (the variable's string when it is
  set, the inherited member for a name such as \<open>constructor\<close>, otherwise \<open>null\<close>),
  stores that value under the cache key with expiry \<open>later + min ttl 30000\<close>, reports
  the login error on the console, and has made the login request only.
\<close>

theorem login_failure_falls_back:
  assumes addr: "env ''VAULT_ADDR'' = Some a" "a \<noteq> []"
    and no_token: "\<not> truthy_str (env ''VAULT_TOKEN'')"
    and role: "env ''VAULT_ROLE_ID'' = Some r" "r \<noteq> []"
    and secret: "env ''VAULT_SECRET_ID'' = Some s" "s \<noteq> []"
    and login: "fetch (login_request a (Some r) (Some s)) = Some resp" "\<not> ok resp"
    and miss: "live_entry cache (cacheKey p k) now = None"
  shows "getSecret B H ttl env fetch now later cache p k =
           (Inr (env_read H env k),
            cache(cacheKey p k \<mapsto> \<lparr> value = env_read H env k, expiresAt = later + min ttl 30000 \<rparr>),
            [Fetch \<lparr> req_method = POST,
                     req_url = strip_trailing_slash a @ ''/v1/auth/approle/login'',
                     req_headers = [(''Content-Type'', ''application/json'')],
                     req_body = Some (JObj [(''role_id'', JStr r), (''secret_id'', JStr s)]) \<rparr>,
             ConsoleError (AppRoleLoginFailed (resp_status resp))])"
proof -
  let ?rq = "login_request a (Some r) (Some s)"
  have "approle_login fetch a (Some r) (Some s) = ([?rq], Inl (AppRoleLoginFailed (resp_status resp)))"
    using login by (simp add: approle_login_def)
  then have "fetchFromVault env fetch p = ([?rq], Inl (AppRoleLoginFailed (resp_status resp)))"
    using addr no_token role secret by (simp add: fetchFromVault_def bind_io_def)
  then have "remote_value B env fetch p k = ([?rq], Inl (AppRoleLoginFailed (resp_status resp)))"
    by (rule remote_value_Inl)
  from getSecret_failed [OF miss this] show ?thesis
    by (simp add: login_request_def)
qed

text \<open>
  The amended C1 on the scenario above, for the unset name \<open>K\<close> and for the inherited
  name \<open>toString\<close>.
\<close>

theorem login_failure_falls_back_witness:
  "getSecret no_builtin object_prototype 300000 env_approle vault_login_400 1000 1001 Map.empty
       ''secret/data/app'' ''K'' =
     (Inr None,
      [''secret/data/app#K'' \<mapsto> \<lparr> value = None, expiresAt = 31001 \<rparr>],
      [Fetch \<lparr> req_method = POST, req_url = ''http://vault:8200/v1/auth/approle/login'',
               req_headers = [(''Content-Type'', ''application/json'')],
               req_body = Some (JObj [(''role_id'', JStr ''r''), (''secret_id'', JStr ''s'')]) \<rparr>,
       ConsoleError (AppRoleLoginFailed 400)])
   \<and> fst (getSecret no_builtin object_prototype 300000 env_approle vault_login_400 1000 1001 Map.empty
       ''secret/data/app'' ''toString'')
     = Inr (Some (JNative ''function toString() { [native code] }''))"
proof -
  have h: "env_approle ''VAULT_ADDR'' = Some ''http://vault:8200''" "''http://vault:8200'' \<noteq> []"
    "\<not> truthy_str (env_approle ''VAULT_TOKEN'')"
    "env_approle ''VAULT_ROLE_ID'' = Some ''r''" "''r'' \<noteq> []"
    "env_approle ''VAULT_SECRET_ID'' = Some ''s''" "''s'' \<noteq> []"
    "vault_login_400 (login_request ''http://vault:8200'' (Some ''r'') (Some ''s''))
       = Some (reply 400 (JObj [(''errors'', JArr [JStr ''invalid role or secret ID''])]))"
    "\<not> ok (reply 400 (JObj [(''errors'', JArr [JStr ''invalid role or secret ID''])]))"
    by (simp_all add: scenario_defs ok_def)
  have miss: "live_entry Map.empty (cacheKey ''secret/data/app'' q) 1000 = None" for q
    by (simp add: live_entry_def)
  have e: "env_read object_prototype env_approle ''K'' = None"
    "env_read object_prototype env_approle ''toString''
       = Some (JNative ''function toString() { [native code] }'')"
    by (simp_all add: env_read_def env_approle_def object_prototype_def)
  have a: "getSecret no_builtin object_prototype 300000 env_approle vault_login_400 1000 1001 Map.empty
       ''secret/data/app'' ''K'' =
     (Inr (env_read object_prototype env_approle ''K''),
      [cacheKey ''secret/data/app'' ''K'' \<mapsto>
         \<lparr> value = env_read object_prototype env_approle ''K'', expiresAt = 1001 + min 300000 30000 \<rparr>],
      [Fetch \<lparr> req_method = POST,
               req_url = strip_trailing_slash ''http://vault:8200'' @ ''/v1/auth/approle/login'',
               req_headers = [(''Content-Type'', ''application/json'')],
               req_body = Some (JObj [(''role_id'', JStr ''r''), (''secret_id'', JStr ''s'')]) \<rparr>,
       ConsoleError (AppRoleLoginFailed (resp_status (reply 400 (JObj [(''errors'', JArr [JStr ''invalid role or secret ID''])]))))])"
    by (rule login_failure_falls_back
      [where env = env_approle and fetch = vault_login_400 and cache = Map.empty
         and p = "''secret/data/app''" and k = "''K''" and now = 1000, OF h miss])
  have b: "fst (getSecret no_builtin object_prototype 300000 env_approle vault_login_400 1000 1001
       Map.empty ''secret/data/app'' ''toString'')
     = Inr (env_read object_prototype env_approle ''toString'')"
    using login_failure_falls_back
      [where env = env_approle and fetch = vault_login_400 and cache = Map.empty
         and p = "''secret/data/app''" and k = "''toString''" and now = 1000
         and B = no_builtin and H = object_prototype and ttl = 300000 and later = 1001, OF h miss]
    by simp
  from a b e show ?thesis
    by (simp add: cacheKey_def reply_def strip_trailing_slash_def)
qed

subsection \<open>What a miss stores and what it returns\<close>

text \<open>
  On a miss the entry written under the cache key holds the returned value, with one
  exception: the fetch succeeded, the key is absent from the collection and
  \<open>process.env[keyName]\<close> is truthy. Then that value is returned and \<open>null\<close> is
  stored.
\<close>

lemma miss_stores_returned_value:
  assumes miss: "live_entry cache (cacheKey p k) now = None"
    and call: "getSecret B H ttl env fetch now later cache p k = (r, cache', tr)"
  shows "\<exists>e. cache' (cacheKey p k) = Some e
            \<and> (r = Inr (value e)
               \<or> (value e = None \<and> truthy_opt (env_read H env k) \<and> r = Inr (env_read H env k)
                   \<and> expiresAt e = later + ttl))"
proof -
  obtain calls x where rv: "remote_value B env fetch p k = (calls, x)"
    by (cases "remote_value B env fetch p k")
  show ?thesis
  proof (cases x)
    case (Inl e)
    with getSecret_failed [OF miss] rv call show ?thesis by auto
  next
    case (Inr v)
    with getSecret_fetched [OF miss] rv call show ?thesis by auto
  qed
qed

text \<open>
  C2: the value returned on a miss is the value stored under the cache key, so that a
  second call inside the window returns the identical value. The code departs from this
  on the following input: a KV v2 store that holds an empty collection, and an
  environment with \<open>K=V\<close>. The first call returns \<open>V\<close> and stores \<open>null\<close>; the
  second call, one second later and well inside the 300000 ms window, returns \<open>null\<close>.
\<close>

theorem absent_key_returned_value_not_cached:
  "getSecret no_builtin object_prototype 300000 env_token_KV vault_v2_empty 1000 1001 Map.empty
       ''secret/data/app'' ''K''
     = (Inr (Some (JStr ''V'')),
        [''secret/data/app#K'' \<mapsto> \<lparr> value = None, expiresAt = 301001 \<rparr>],
        [Fetch (read_request ''http://vault:8200'' ''t'' ''secret/data/app'')])
   \<and> getSecret no_builtin object_prototype 300000 env_token_KV vault_v2_empty 2000 2001
        [''secret/data/app#K'' \<mapsto> \<lparr> value = None, expiresAt = 301001 \<rparr>] ''secret/data/app'' ''K''
     = (Inr None, [''secret/data/app#K'' \<mapsto> \<lparr> value = None, expiresAt = 301001 \<rparr>], [])"
  by (simp add: scenario_defs model_defs)

text \<open>
  C3: when the collection is fetched, the key is absent from it and the environment has
  a non-empty value for the key, the first call returns the environment value and stores
  \<open>null\<close> with the full TTL; every later call before \<open>later + ttl\<close>, whatever the
  environment and the store are by then, returns \<open>null\<close> from the cache without
  any request and without reading the environment.
\<close>

theorem absent_key_env_then_null:
  assumes miss: "live_entry cache (cacheKey p k) now = None"
    and fetched: "fetchFromVault env fetch p = (calls, Inr data)"
    and absent: "get_prop B data k = None"
    and envk: "env k = Some v" "v \<noteq> []"
  shows "(let cache' = cache(cacheKey p k \<mapsto> \<lparr> value = None, expiresAt = later + ttl \<rparr>) in
          getSecret B H ttl env fetch now later cache p k
            = (Inr (Some (JStr v)), cache', map Fetch calls)
          \<and> (\<forall>B' H' env' fetch' now' later'. now' < later + ttl \<longrightarrow>
                getSecret B' H' ttl env' fetch' now' later' cache' p k = (Inr None, cache', [])))"
proof -
  have "read_key B data k = Inr None"
    using absent by (simp add: read_key_def)
  then have "remote_value B env fetch p k = (calls, Inr None)"
    using remote_value_Inr [OF fetched, of B k] by simp
  from getSecret_fetched [OF miss this]
  have first: "getSecret B H ttl env fetch now later cache p k
      = (Inr (Some (JStr v)), cache(cacheKey p k \<mapsto> \<lparr> value = None, expiresAt = later + ttl \<rparr>),
         map Fetch calls)"
    using envk by (simp add: env_read_set)
  have second: "getSecret B' H' ttl env' fetch' now' later'
        (cache(cacheKey p k \<mapsto> \<lparr> value = None, expiresAt = later + ttl \<rparr>)) p k
      = (Inr None, cache(cacheKey p k \<mapsto> \<lparr> value = None, expiresAt = later + ttl \<rparr>), [])"
    if "now' < later + ttl" for B' H' env' fetch' now' later'
  proof -
    have "live_entry (cache(cacheKey p k \<mapsto> \<lparr> value = None, expiresAt = later + ttl \<rparr>))
            (cacheKey p k) now' = Some \<lparr> value = None, expiresAt = later + ttl \<rparr>"
      using that by (simp add: live_entry_def)
    from getSecret_hit [OF this] show ?thesis by simp
  qed
  show ?thesis unfolding Let_def using first second by blast
qed

text \<open>
  C3 on the empty KV v2 collection with \<open>K=V\<close> in the environment: the entry
  written at 5002 holds \<open>null\<close> until 305002, and a call at 305001 still gets it.
\<close>

theorem absent_key_env_then_null_witness:
  "getSecret no_builtin object_prototype 300000 env_token_KV vault_v2_empty 5000 5002 Map.empty
       ''secret/data/app'' ''K''
     = (Inr (Some (JStr ''V'')),
        [''secret/data/app#K'' \<mapsto> \<lparr> value = None, expiresAt = 305002 \<rparr>],
        [Fetch (read_request ''http://vault:8200'' ''t'' ''secret/data/app'')])
   \<and> getSecret no_builtin object_prototype 300000 env_token_KV vault_v2_empty 305001 305003
        [''secret/data/app#K'' \<mapsto> \<lparr> value = None, expiresAt = 305002 \<rparr>] ''secret/data/app'' ''K''
     = (Inr None, [''secret/data/app#K'' \<mapsto> \<lparr> value = None, expiresAt = 305002 \<rparr>], [])"
proof -
  have h: "live_entry Map.empty (cacheKey ''secret/data/app'' ''K'') 5000 = None"
    "fetchFromVault env_token_KV vault_v2_empty ''secret/data/app''
       = ([read_request ''http://vault:8200'' ''t'' ''secret/data/app''], Inr (JObj []))"
    "get_prop no_builtin (JObj []) ''K'' = None"
    "env_token_KV ''K'' = Some ''V''" "''V'' \<noteq> []"
    by (simp_all add: scenario_defs model_defs)
  have w: "(305001::int) < 5002 + 300000" by simp
  note t = absent_key_env_then_null
      [where cache = Map.empty and p = "''secret/data/app''" and k = "''K''" and now = 5000
         and later = 5002 and ttl = 300000 and B = no_builtin and H = object_prototype,
       OF h, unfolded Let_def]
  from t have a: "getSecret no_builtin object_prototype 300000 env_token_KV vault_v2_empty 5000 5002
      Map.empty ''secret/data/app'' ''K''
     = (Inr (Some (JStr ''V'')),
        [cacheKey ''secret/data/app'' ''K'' \<mapsto> \<lparr> value = None, expiresAt = 5002 + 300000 \<rparr>],
        map Fetch [read_request ''http://vault:8200'' ''t'' ''secret/data/app''])"
    by blast
  from t w have b: "getSecret no_builtin object_prototype 300000 env_token_KV vault_v2_empty 305001 305003
        [cacheKey ''secret/data/app'' ''K'' \<mapsto> \<lparr> value = None, expiresAt = 5002 + 300000 \<rparr>]
        ''secret/data/app'' ''K''
     = (Inr None, [cacheKey ''secret/data/app'' ''K'' \<mapsto> \<lparr> value = None, expiresAt = 5002 + 300000 \<rparr>], [])"
    by blast
  from a b show ?thesis by (simp add: cacheKey_def)
qed

subsection \<open>Expiry\<close>

text \<open>
  C4: an entry is served only while its \<open>expiresAt\<close> is strictly later than the
  clock reading taken at entry. A call that finds the entry with \<open>expiresAt \<le> now\<close>
  behaves exactly as if the entry were not there: it runs \<open>fetchFromVault\<close> again,
  issuing every request that this makes (at least one when a store is configured), and
  leaves a non-empty trace.
\<close>

theorem expired_entry_not_served:
  assumes entry: "cache (cacheKey p k) = Some c"
  shows "(expiresAt c > now \<longrightarrow>
            getSecret B H ttl env fetch now later cache p k = (Inr (value c), cache, []))
       \<and> (expiresAt c \<le> now \<longrightarrow>
            getSecret B H ttl env fetch now later cache p k
              = getSecret B H ttl env fetch now later (cache(cacheKey p k := None)) p k
            \<and> snd (snd (getSecret B H ttl env fetch now later cache p k)) \<noteq> []
            \<and> fetch_calls (snd (snd (getSecret B H ttl env fetch now later cache p k)))
                = fst (fetchFromVault env fetch p)
            \<and> (store_configured env \<longrightarrow>
                 fetch_calls (snd (snd (getSecret B H ttl env fetch now later cache p k))) \<noteq> []))"
proof (intro conjI impI)
  assume "expiresAt c > now"
  with entry have "live_entry cache (cacheKey p k) now = Some c"
    by (rule live_entry_hit)
  then show "getSecret B H ttl env fetch now later cache p k = (Inr (value c), cache, [])"
    by (rule getSecret_hit)
next
  assume "expiresAt c \<le> now"
  with entry have miss: "live_entry cache (cacheKey p k) now = None"
    by (rule live_entry_expired)
  show "getSecret B H ttl env fetch now later cache p k
          = getSecret B H ttl env fetch now later (cache(cacheKey p k := None)) p k"
    using miss by (rule getSecret_miss_forget)
  show "snd (snd (getSecret B H ttl env fetch now later cache p k)) \<noteq> []"
    using miss by (rule getSecret_miss_trace)
  show calls: "fetch_calls (snd (snd (getSecret B H ttl env fetch now later cache p k)))
          = fst (fetchFromVault env fetch p)"
    using miss by (rule getSecret_miss_trace)
  show "fetch_calls (snd (snd (getSecret B H ttl env fetch now later cache p k))) \<noteq> []"
    if "store_configured env"
    using calls fetchFromVault_configured_calls [OF that, of fetch p] by simp
qed

text \<open>
  C4 on a cache that holds \<open>old\<close> with \<open>expiresAt = 1000\<close>: one millisecond before,
  the entry is served without any request; at 1000 itself the store is read again and
  its value \<open>V\<close> replaces the entry.
\<close>

theorem expired_entry_not_served_witness:
  "getSecret no_builtin object_prototype 300000 env_token vault_v2_KV 999 999
       [''secret/data/app#K'' \<mapsto> \<lparr> value = Some (JStr ''old''), expiresAt = 1000 \<rparr>] ''secret/data/app'' ''K''
     = (Inr (Some (JStr ''old'')), [''secret/data/app#K'' \<mapsto> \<lparr> value = Some (JStr ''old''), expiresAt = 1000 \<rparr>], [])
   \<and> getSecret no_builtin object_prototype 300000 env_token vault_v2_KV 1000 1000
       [''secret/data/app#K'' \<mapsto> \<lparr> value = Some (JStr ''old''), expiresAt = 1000 \<rparr>] ''secret/data/app'' ''K''
     = (Inr (Some (JStr ''V'')), [''secret/data/app#K'' \<mapsto> \<lparr> value = Some (JStr ''V''), expiresAt = 301000 \<rparr>],
        [Fetch (read_request ''http://vault:8200'' ''t'' ''secret/data/app'')])
   \<and> fetch_calls (snd (snd (getSecret no_builtin object_prototype 300000 env_token vault_v2_KV 1000 1000
       [''secret/data/app#K'' \<mapsto> \<lparr> value = Some (JStr ''old''), expiresAt = 1000 \<rparr>] ''secret/data/app'' ''K'')))
     \<noteq> []"
proof -
  let ?c = "\<lparr> value = Some (JStr ''old''), expiresAt = 1000 \<rparr>"
  let ?cache = "[''secret/data/app#K'' \<mapsto> ?c]"
  have entry: "?cache (cacheKey ''secret/data/app'' ''K'') = Some ?c"
    by (simp add: cacheKey_def)
  have conf: "store_configured env_token"
    by (simp add: store_configured_def env_token_def)
  have gt: "expiresAt ?c > 999" and le: "expiresAt ?c \<le> 1000"
    by simp_all
  note t = expired_entry_not_served
      [where cache = ?cache and p = "''secret/data/app''" and k = "''K''" and c = ?c
         and B = no_builtin and H = object_prototype and ttl = 300000 and env = env_token and fetch = vault_v2_KV, OF entry]
  have a: "getSecret no_builtin object_prototype 300000 env_token vault_v2_KV 999 999 ?cache ''secret/data/app'' ''K''
             = (Inr (value ?c), ?cache, [])"
    using t [of 999 999] gt by blast
  have b: "getSecret no_builtin object_prototype 300000 env_token vault_v2_KV 1000 1000 ?cache ''secret/data/app'' ''K''
             = getSecret no_builtin object_prototype 300000 env_token vault_v2_KV 1000 1000
                 (?cache(cacheKey ''secret/data/app'' ''K'' := None)) ''secret/data/app'' ''K''"
    and c: "fetch_calls (snd (snd (getSecret no_builtin object_prototype 300000 env_token vault_v2_KV 1000 1000
               ?cache ''secret/data/app'' ''K''))) \<noteq> []"
    using t [of 1000 1000] le conf by blast+
  have d: "getSecret no_builtin object_prototype 300000 env_token vault_v2_KV 1000 1000
             (?cache(cacheKey ''secret/data/app'' ''K'' := None)) ''secret/data/app'' ''K''
           = (Inr (Some (JStr ''V'')), [''secret/data/app#K'' \<mapsto> \<lparr> value = Some (JStr ''V''), expiresAt = 301000 \<rparr>],
              [Fetch (read_request ''http://vault:8200'' ''t'' ''secret/data/app'')])"
    by (simp add: scenario_defs model_defs)
  from a b c d show ?thesis by simp
qed

subsection \<open>The two envelope shapes\<close>

text \<open>
  The envelope test looks for a truthy \<open>data.data.data\<close> first. A doubly nested
  body yields its inner collection, whatever stands beside the two \<open>data\<close> fields. A
  singly nested body yields its collection when that has no truthy field named
  \<open>data\<close>; when it has one, the body is taken for a doubly nested one and the field's
  value is taken for the collection.
\<close>

lemma unwrap_data_doubly:
  "map_of outer ''data'' = Some (JObj mid) \<Longrightarrow> map_of mid ''data'' = Some (JObj kvs) \<Longrightarrow>
   unwrap_data (JObj outer) = JObj kvs"
  by (simp add: unwrap_data_def)

lemma unwrap_data_singly:
  "map_of outer ''data'' = Some (JObj kvs) \<Longrightarrow> \<not> truthy_opt (map_of kvs ''data'') \<Longrightarrow>
   unwrap_data (JObj outer) = JObj kvs"
  by (cases "map_of kvs ''data''") (simp_all add: unwrap_data_def)

lemma unwrap_data_singly_mistaken:
  "map_of outer ''data'' = Some (JObj kvs) \<Longrightarrow> map_of kvs ''data'' = Some d \<Longrightarrow> truthy d \<Longrightarrow>
   unwrap_data (JObj outer) = d"
  by (simp add: unwrap_data_def)

text \<open>
  Where the envelope is recognised, the key is extracted: on a cache miss on which the
  fetch succeeds and the store answers reads with a body whose \<open>data\<close> field is an
  object, either holding the collection under a second \<open>data\<close> field or being the
  collection itself with no truthy \<open>data\<close> field, a key bound to the string \<open>V\<close> in
  the collection is returned as \<open>V\<close> and stored with the full TTL.
\<close>

lemma envelopes_normalized:
  assumes miss: "live_entry cache (cacheKey p K) now = None"
    and fetched: "fetchFromVault env fetch p = (calls, Inr coll)"
    and answer: "\<And>rq res. fetch rq = Some res \<Longrightarrow> req_method rq = GET \<Longrightarrow> resp_json res = Some (JObj outer)"
    and has_data: "map_of outer ''data'' = Some (JObj mid)"
    and shape: "map_of mid ''data'' = Some (JObj kvs)
                \<or> (mid = kvs \<and> \<not> truthy_opt (map_of kvs ''data''))"
    and bound: "map_of kvs K = Some (JStr V)"
  shows "getSecret B H ttl env fetch now later cache p K
           = (Inr (Some (JStr V)),
              cache(cacheKey p K \<mapsto> \<lparr> value = Some (JStr V), expiresAt = later + ttl \<rparr>),
              map Fetch calls)"
proof -
  from fetchFromVault_success [OF fetched]
  obtain a tok res where res: "fetch (read_request a tok p) = Some res"
    and coll: "coll = unwrap_data (case resp_json res of None \<Rightarrow> JObj [] | Some d \<Rightarrow> d)"
    by blast
  have "req_method (read_request a tok p) = GET"
    by (simp add: read_request_def)
  with answer [OF res] have "resp_json res = Some (JObj outer)" .
  with coll have "coll = unwrap_data (JObj outer)" by simp
  with has_data shape have "coll = JObj kvs"
    by (auto simp: unwrap_data_doubly unwrap_data_singly)
  then have "read_key B coll K = Inr (Some (JStr V))"
    using bound by (simp add: read_key_def get_prop_def)
  then have "remote_value B env fetch p K = (calls, Inr (Some (JStr V)))"
    using remote_value_Inr [OF fetched, of B K] by simp
  from getSecret_fetched [OF miss this] show ?thesis by simp
qed

text \<open>The two bodies \<open>{data:{data:{K:"V"}}}\<close> and \<open>{data:{K:"V"}}\<close> with the key name \<open>K\<close>.\<close>

lemma envelopes_normalized_K_V:
  "fst (getSecret no_builtin object_prototype 300000 env_token vault_v2_KV 1000 1001 Map.empty
          ''secret/data/app'' ''K'') = Inr (Some (JStr ''V''))
   \<and> fst (getSecret no_builtin object_prototype 300000 env_token vault_v1_KV 1000 1001 Map.empty
          ''secret/app'' ''K'') = Inr (Some (JStr ''V''))"
  by (simp add: scenario_defs model_defs)

text \<open>
  C5: both envelope shapes are normalized before the key is extracted, so that
  \<open>{data:{K:"V"}}\<close> gives \<open>V\<close> for the key name \<open>K\<close>. The code departs from this
  when the singly nested collection has a truthy field named \<open>data\<close>. For the key name
  \<open>data\<close> the store answers \<open>{data:{data:"V"}}\<close>; the string \<open>V\<close> is taken for
  the collection, the key is not found in it, and the call returns \<open>null\<close> and stores
  it for the full TTL. The same happens to the key \<open>K\<close> of the collection
  \<open>{K:"V", data:"x"}\<close>.
\<close>

theorem singly_nested_data_field_not_normalized:
  "vault_v1_data (read_request ''http://vault:8200'' ''t'' ''secret/app'')
     = Some (reply 200 (JObj [(''data'', JObj [(''data'', JStr ''V'')])]))
   \<and> getSecret no_builtin object_prototype 300000 env_token vault_v1_data 1000 1001 Map.empty
        ''secret/app'' ''data''
     = (Inr None,
        [''secret/app#data'' \<mapsto> \<lparr> value = None, expiresAt = 301001 \<rparr>],
        [Fetch (read_request ''http://vault:8200'' ''t'' ''secret/app'')])
   \<and> vault_v1_KV_data (read_request ''http://vault:8200'' ''t'' ''secret/app'')
     = Some (reply 200 (JObj [(''data'', JObj [(''K'', JStr ''V''), (''data'', JStr ''x'')])]))
   \<and> getSecret no_builtin object_prototype 300000 env_token vault_v1_KV_data 1000 1001 Map.empty
        ''secret/app'' ''K''
     = (Inr None,
        [''secret/app#K'' \<mapsto> \<lparr> value = None, expiresAt = 301001 \<rparr>],
        [Fetch (read_request ''http://vault:8200'' ''t'' ''secret/app'')])"
  by (simp add: scenario_defs model_defs)

subsection \<open>No store address\<close>

text \<open>
  C6: when \<open>VAULT_ADDR\<close> is unset or empty and no live entry is cached, a call for a
  key name \<open>K\<close> that the environment binds to \<open>V\<close> returns \<open>V\<close>. It does not
  reject and calls \<open>fetch\<close> not at all: the trace holds the console message only. The
  value is stored with the short expiry.
\<close>

theorem no_address_env_fallback:
  assumes no_addr: "\<not> truthy_str (env ''VAULT_ADDR'')"
    and miss: "live_entry cache (cacheKey p K) now = None"
    and envK: "env K = Some V"
  shows "getSecret B H ttl env fetch now later cache p K
           = (Inr (Some (JStr V)),
              cache(cacheKey p K \<mapsto> \<lparr> value = Some (JStr V), expiresAt = later + min ttl 30000 \<rparr>),
              [ConsoleError AddrNotConfigured])"
proof -
  have "fetchFromVault env fetch p = ([], Inl AddrNotConfigured)"
    using no_addr by (cases "env ''VAULT_ADDR''") (simp_all add: fetchFromVault_def)
  then have "remote_value B env fetch p K = ([], Inl AddrNotConfigured)"
    by (rule remote_value_Inl)
  from getSecret_failed [OF miss this] envK show ?thesis by (simp add: env_read_set)
qed

text \<open>C6 on an environment that holds \<open>K=V\<close> and nothing else.\<close>

theorem no_address_env_fallback_witness:
  "getSecret no_builtin object_prototype 300000 env_only_KV vault_v2_KV 1000 1001 Map.empty
       ''any/path'' ''K''
     = (Inr (Some (JStr ''V'')),
        [''any/path#K'' \<mapsto> \<lparr> value = Some (JStr ''V''), expiresAt = 31001 \<rparr>],
        [ConsoleError AddrNotConfigured])"
proof -
  have h: "\<not> truthy_str (env_only_KV ''VAULT_ADDR'')"
    "live_entry Map.empty (cacheKey ''any/path'' ''K'') 1000 = None"
    "env_only_KV ''K'' = Some ''V''"
    by (simp_all add: env_only_KV_def live_entry_def)
  show ?thesis
    using no_address_env_fallback
      [where env = env_only_KV and cache = Map.empty and p = "''any/path''" and K = "''K''"
         and now = 1000 and B = no_builtin and H = object_prototype and ttl = 300000
         and fetch = vault_v2_KV and later = 1001, OF h]
    by (simp add: cacheKey_def)
qed

subsection \<open>Choice of credential\<close>

text \<open>
  C7: when \<open>VAULT_TOKEN\<close> is set to a non-empty string \<open>t\<close>, the AppRole branch is
  not entered, whether or not a role-id/secret-id pair is configured as well. On a cache
  miss with a store address \<open>a\<close> the only call of \<open>fetch\<close> is the secret read: a
  \<open>GET\<close> of \<open>a\<close> (less one trailing slash), \<open>/v1/\<close> and the path (less its
  leading slashes), whose \<open>Authorization\<close> header is \<open>Bearer\<close> followed by \<open>t\<close>.
  Without a store address there is no call at all. In both cases no call is a
  \<open>POST\<close>, and none goes to a URL that ends in \<open>/v1/auth/approle/login\<close>.
\<close>

theorem static_token_preferred:
  assumes token: "env ''VAULT_TOKEN'' = Some t" "t \<noteq> []"
    and miss: "live_entry cache (cacheKey p k) now = None"
  shows "fetch_calls (snd (snd (getSecret B H ttl env fetch now later cache p k)))
           = (case env ''VAULT_ADDR'' of
                None \<Rightarrow> []
              | Some a \<Rightarrow>
                  if a = [] then []
                  else [\<lparr> req_method = GET,
                          req_url = (if last a = CHR ''/'' then butlast a else a) @ ''/v1/''
                                      @ dropWhile (\<lambda>c. c = CHR ''/'') p,
                          req_headers = [(''Authorization'', ''Bearer '' @ t),
                                         (''Accept'', ''application/json'')],
                          req_body = None \<rparr>])
       \<and> (\<forall>rq \<in> set (fetch_calls (snd (snd (getSecret B H ttl env fetch now later cache p k)))).
             req_method rq = GET)"
proof -
  have calls: "fst (fetchFromVault env fetch p)
           = (case env ''VAULT_ADDR'' of
                None \<Rightarrow> []
              | Some a \<Rightarrow> if a = [] then [] else [read_request a t p])"
  proof (cases "env ''VAULT_ADDR''")
    case None
    then show ?thesis by (simp add: fetchFromVault_def)
  next
    case (Some a)
    have "fst (read_secret fetch a (JStr t) p) = [read_request a t p]"
      by (rule read_secret_calls) simp
    then show ?thesis
      using Some token
      by (cases "read_secret fetch a (JStr t) p") (simp add: fetchFromVault_def bind_io_def)
  qed
  have trace: "fetch_calls (snd (snd (getSecret B H ttl env fetch now later cache p k)))
          = fst (fetchFromVault env fetch p)"
    using miss by (rule getSecret_miss_trace)
  have rq: "read_request a t p
      = \<lparr> req_method = GET,
          req_url = (if last a = CHR ''/'' then butlast a else a) @ ''/v1/''
                      @ dropWhile (\<lambda>c. c = CHR ''/'') p,
          req_headers = [(''Authorization'', ''Bearer '' @ t), (''Accept'', ''application/json'')],
          req_body = None \<rparr>"
    if "a \<noteq> []" for a
    using that by (simp add: read_request_def strip_trailing_slash_def strip_leading_slashes_def)
  show ?thesis
    using trace calls rq by (auto split: option.splits if_splits)
qed

text \<open>
  C7 with both credentials configured, the static token being \<open>hvs.static-7Qx\<close>: the
  one call is the read that carries this token.
\<close>

theorem static_token_preferred_witness:
  "env_both ''VAULT_TOKEN'' = Some ''hvs.static-7Qx'' \<and> env_both ''VAULT_ROLE_ID'' = Some ''r''
   \<and> env_both ''VAULT_SECRET_ID'' = Some ''s''
   \<and> fetch_calls (snd (snd (getSecret no_builtin object_prototype 300000 env_both vault_v2_KV
         1000 1001 Map.empty ''/secret/data/app'' ''K'')))
      = [\<lparr> req_method = GET, req_url = ''http://vault:8200/v1/secret/data/app'',
           req_headers = [(''Authorization'', ''Bearer hvs.static-7Qx''),
                          (''Accept'', ''application/json'')],
           req_body = None \<rparr>]"
proof -
  have h: "env_both ''VAULT_TOKEN'' = Some ''hvs.static-7Qx''" "''hvs.static-7Qx'' \<noteq> []"
    "live_entry Map.empty (cacheKey ''/secret/data/app'' ''K'') 1000 = None"
    by (simp_all add: env_both_def env_approle_def live_entry_def)
  have e: "env_both ''VAULT_ROLE_ID'' = Some ''r''" "env_both ''VAULT_SECRET_ID'' = Some ''s''"
    "env_both ''VAULT_ADDR'' = Some ''http://vault:8200''"
    by (simp_all add: env_both_def env_approle_def)
  note t = static_token_preferred
      [where env = env_both and cache = Map.empty and p = "''/secret/data/app''" and k = "''K''"
         and now = 1000 and B = no_builtin and H = object_prototype and ttl = 300000
         and fetch = vault_v2_KV and later = 1001, OF h]
  from t have "fetch_calls (snd (snd (getSecret no_builtin object_prototype 300000 env_both
         vault_v2_KV 1000 1001 Map.empty ''/secret/data/app'' ''K'')))
      = (case env_both ''VAULT_ADDR'' of
                None \<Rightarrow> []
              | Some a \<Rightarrow>
                  if a = [] then []
                  else [\<lparr> req_method = GET,
                          req_url = (if last a = CHR ''/'' then butlast a else a) @ ''/v1/''
                                      @ dropWhile (\<lambda>c. c = CHR ''/'') ''/secret/data/app'',
                          req_headers = [(''Authorization'', ''Bearer '' @ ''hvs.static-7Qx''),
                                         (''Accept'', ''application/json'')],
                          req_body = None \<rparr>])"
    by blast
  with h e show ?thesis by simp
qed

subsection \<open>The fallback entry is short-lived\<close>

text \<open>
  C8, as stated, fails. A resolution that falls back to the environment because the
  fetched collection lacks the key stores \<open>null\<close> with the full TTL, not the fallback
  with the short one: the first call below returns \<open>V\<close> from the environment and
  writes an entry that expires at 301001, and the call at 31001, after the fallback TTL
  and before the full TTL, is served \<open>null\<close> from the cache without any request. And
  where the fallback was due to a missing store address, the call after the fallback TTL
  resolves afresh but has no store to attempt: it makes no request.
\<close>

theorem absent_key_entry_outlives_fallback_ttl:
  "getSecret no_builtin object_prototype 300000 env_token_KV vault_v2_empty 1000 1001 Map.empty
       ''secret/data/app'' ''K''
     = (Inr (Some (JStr ''V'')),
        [''secret/data/app#K'' \<mapsto> \<lparr> value = None, expiresAt = 301001 \<rparr>],
        [Fetch (read_request ''http://vault:8200'' ''t'' ''secret/data/app'')])
   \<and> getSecret no_builtin object_prototype 300000 env_token_KV vault_v2_empty 31001 31002
        [''secret/data/app#K'' \<mapsto> \<lparr> value = None, expiresAt = 301001 \<rparr>] ''secret/data/app'' ''K''
     = (Inr None, [''secret/data/app#K'' \<mapsto> \<lparr> value = None, expiresAt = 301001 \<rparr>], [])
   \<and> getSecret no_builtin object_prototype 300000 env_only_KV vault_v2_KV 1000 1001 Map.empty
       ''any/path'' ''K''
     = (Inr (Some (JStr ''V'')),
        [''any/path#K'' \<mapsto> \<lparr> value = Some (JStr ''V''), expiresAt = 31001 \<rparr>],
        [ConsoleError AddrNotConfigured])
   \<and> getSecret no_builtin object_prototype 300000 env_only_KV vault_v2_KV 31001 31002
        [''any/path#K'' \<mapsto> \<lparr> value = Some (JStr ''V''), expiresAt = 31001 \<rparr>] ''any/path'' ''K''
     = (Inr (Some (JStr ''V'')),
        [''any/path#K'' \<mapsto> \<lparr> value = Some (JStr ''V''), expiresAt = 61002 \<rparr>],
        [ConsoleError AddrNotConfigured])"
  by (simp add: scenario_defs model_defs)

text \<open>
  C8, amended. When the remote resolution throws on a cache miss (no store address, no
  credential, a failed login or read, a rejected \<open>fetch\<close>, a value that cannot be
  converted), \<open>process.env[keyName] ?? null\<close> is returned and stored with expiry
  \<open>later + min ttl 30000\<close>. A call whose clock reading has reached that expiry, also
  when it is before \<open>later + ttl\<close>, does not reuse the stored value: it behaves as
  without the entry, runs \<open>fetchFromVault\<close> again and issues every request that this
  makes, at least one when a store address and a credential are configured by then.
\<close>

theorem fallback_cached_briefly:
  assumes miss: "live_entry cache (cacheKey p k) now = None"
    and failed: "remote_value B env fetch p k = (calls, Inl e)"
  shows "(let cache' = cache(cacheKey p k \<mapsto>
                         \<lparr> value = env_read H env k, expiresAt = later + min ttl 30000 \<rparr>) in
          getSecret B H ttl env fetch now later cache p k
            = (Inr (env_read H env k), cache', map Fetch calls @ [ConsoleError e])
          \<and> (\<forall>B' H' env' fetch' now' later'. later + min ttl 30000 \<le> now' \<longrightarrow>
                getSecret B' H' ttl env' fetch' now' later' cache' p k
                  = getSecret B' H' ttl env' fetch' now' later' (cache'(cacheKey p k := None)) p k
                \<and> fetch_calls (snd (snd (getSecret B' H' ttl env' fetch' now' later' cache' p k)))
                    = fst (fetchFromVault env' fetch' p)
                \<and> (store_configured env' \<longrightarrow>
                     fetch_calls (snd (snd (getSecret B' H' ttl env' fetch' now' later' cache' p k))) \<noteq> [])))"
proof -
  let ?e = "\<lparr> value = env_read H env k, expiresAt = later + min ttl 30000 \<rparr>"
  let ?cache' = "cache(cacheKey p k \<mapsto> ?e)"
  have first: "getSecret B H ttl env fetch now later cache p k
            = (Inr (env_read H env k), ?cache', map Fetch calls @ [ConsoleError e])"
    using getSecret_failed [OF miss failed] by simp
  have retry: "getSecret B' H' ttl env' fetch' now' later' ?cache' p k
                  = getSecret B' H' ttl env' fetch' now' later' (?cache'(cacheKey p k := None)) p k
                \<and> fetch_calls (snd (snd (getSecret B' H' ttl env' fetch' now' later' ?cache' p k)))
                    = fst (fetchFromVault env' fetch' p)
                \<and> (store_configured env' \<longrightarrow>
                     fetch_calls (snd (snd (getSecret B' H' ttl env' fetch' now' later' ?cache' p k))) \<noteq> [])"
    if late: "later + min ttl 30000 \<le> now'" for B' H' env' fetch' now' later'
  proof -
    have "?cache' (cacheKey p k) = Some ?e" by simp
    moreover have "expiresAt ?e \<le> now'" using late by simp
    ultimately have m: "live_entry ?cache' (cacheKey p k) now' = None"
      by (rule live_entry_expired)
    have c: "fetch_calls (snd (snd (getSecret B' H' ttl env' fetch' now' later' ?cache' p k)))
                    = fst (fetchFromVault env' fetch' p)"
      using m by (rule getSecret_miss_trace)
    show ?thesis
      using getSecret_miss_forget [OF m] c fetchFromVault_configured_calls [of env' fetch' p]
      by simp
  qed
  show ?thesis unfolding Let_def using first retry by blast
qed

text \<open>
  The amended C8 on a store that is down at 1000 and up again later, with the default
  TTL: the fallback \<open>V\<close> from the environment expires at 31001; a call at 31001 reads
  the store.
\<close>

theorem fallback_cached_briefly_witness:
  "getSecret no_builtin object_prototype 300000 env_token_KV vault_down 1000 1001 Map.empty
       ''secret/data/app'' ''K''
     = (Inr (Some (JStr ''V'')),
        [''secret/data/app#K'' \<mapsto> \<lparr> value = Some (JStr ''V''), expiresAt = 31001 \<rparr>],
        [Fetch (read_request ''http://vault:8200'' ''t'' ''secret/data/app''), ConsoleError FetchRejected])
   \<and> fetch_calls (snd (snd (getSecret no_builtin object_prototype 300000 env_token vault_v2_KV 31001 31002
        [''secret/data/app#K'' \<mapsto> \<lparr> value = Some (JStr ''V''), expiresAt = 31001 \<rparr>]
        ''secret/data/app'' ''K'')))
     = [read_request ''http://vault:8200'' ''t'' ''secret/data/app'']"
proof -
  have h: "live_entry Map.empty (cacheKey ''secret/data/app'' ''K'') 1000 = None"
    "remote_value no_builtin env_token_KV vault_down ''secret/data/app'' ''K''
       = ([read_request ''http://vault:8200'' ''t'' ''secret/data/app''], Inl FetchRejected)"
    by (simp_all add: scenario_defs model_defs)
  have late: "(1001::int) + min 300000 30000 \<le> 31001" by simp
  have f: "fst (fetchFromVault env_token vault_v2_KV ''secret/data/app'')
             = [read_request ''http://vault:8200'' ''t'' ''secret/data/app'']"
    by (simp add: scenario_defs model_defs)
  have ev: "env_read object_prototype env_token_KV ''K'' = Some (JStr ''V'')"
    by (simp add: env_token_KV_def env_read_def)
  note t = fallback_cached_briefly
      [where cache = Map.empty and p = "''secret/data/app''" and k = "''K''" and now = 1000
         and later = 1001 and ttl = 300000 and B = no_builtin and H = object_prototype
         and env = env_token_KV and fetch = vault_down, OF h, unfolded Let_def]
  from t have a: "getSecret no_builtin object_prototype 300000 env_token_KV vault_down 1000 1001
        Map.empty ''secret/data/app'' ''K''
     = (Inr (env_read object_prototype env_token_KV ''K''),
        [cacheKey ''secret/data/app'' ''K'' \<mapsto>
           \<lparr> value = env_read object_prototype env_token_KV ''K'',
             expiresAt = 1001 + min 300000 30000 \<rparr>],
        map Fetch [read_request ''http://vault:8200'' ''t'' ''secret/data/app''] @ [ConsoleError FetchRejected])"
    by blast
  from t late have b: "fetch_calls (snd (snd (getSecret no_builtin object_prototype 300000 env_token
        vault_v2_KV 31001 31002
        [cacheKey ''secret/data/app'' ''K'' \<mapsto>
           \<lparr> value = env_read object_prototype env_token_KV ''K'',
             expiresAt = 1001 + min 300000 30000 \<rparr>]
        ''secret/data/app'' ''K'')))
     = fst (fetchFromVault env_token vault_v2_KV ''secret/data/app'')"
    by blast
  from a b f ev show ?thesis by (simp add: cacheKey_def)
qed

subsection \<open>Clearing the cache\<close>




subsection \<open>Colliding cache keys\<close>

text \<open>
  C10: the cache key is not injective on pairs of path and key name. The pairs
  \<open>(a#b, c)\<close> and \<open>(a, b#c)\<close> differ and have the same key \<open>a#b#c\<close>, so a live
  entry written for the first is served, without any request, to a call for the second.
\<close>

theorem cacheKey_collision:
  assumes live: "live_entry cache (cacheKey ''a#b'' ''c'') now = Some c"
  shows "(''a#b'', ''c'') \<noteq> (''a'', ''b#c'')
       \<and> cacheKey ''a#b'' ''c'' = cacheKey ''a'' ''b#c''
       \<and> \<not> inj (\<lambda>(path, keyName). cacheKey path keyName)
       \<and> getSecret B H ttl env fetch now later cache ''a'' ''b#c'' = (Inr (value c), cache, [])"
proof -
  have eq: "cacheKey ''a#b'' ''c'' = cacheKey ''a'' ''b#c''"
    by (simp add: cacheKey_def)
  have ne: "(''a#b'', ''c'') \<noteq> (''a'', ''b#c'')"
    by simp
  have "\<not> inj (\<lambda>(path, keyName). cacheKey path keyName)"
  proof
    assume "inj (\<lambda>(path, keyName). cacheKey path keyName)"
    then have "(''a#b'', ''c'') = (''a'', ''b#c'')"
      using eq by (auto dest!: injD [where x = "(''a#b'', ''c'')" and y = "(''a'', ''b#c'')"])
    with ne show False by contradiction
  qed
  moreover have "getSecret B H ttl env fetch now later cache ''a'' ''b#c'' = (Inr (value c), cache, [])"
    using live eq getSecret_hit [of cache "''a''" "''b#c''" now c] by simp
  ultimately show ?thesis using eq ne by blast
qed

text \<open>
  C10 on a store that holds \<open>one\<close> under \<open>c\<close> at path \<open>a#b\<close> and \<open>two\<close> under
  \<open>b#c\<close> at path \<open>a\<close>: after a call for the first pair, a call for the second
  returns \<open>one\<close> from the cache, where the store would have given \<open>two\<close>.
\<close>

theorem cacheKey_collision_witness:
  "getSecret no_builtin object_prototype 300000 env_token vault_two_paths 1000 1001 Map.empty ''a#b'' ''c''
     = (Inr (Some (JStr ''one'')), [''a#b#c'' \<mapsto> \<lparr> value = Some (JStr ''one''), expiresAt = 301001 \<rparr>],
        [Fetch (read_request ''http://vault:8200'' ''t'' ''a#b'')])
   \<and> getSecret no_builtin object_prototype 300000 env_token vault_two_paths 2000 2001
        [''a#b#c'' \<mapsto> \<lparr> value = Some (JStr ''one''), expiresAt = 301001 \<rparr>] ''a'' ''b#c''
     = (Inr (Some (JStr ''one'')), [''a#b#c'' \<mapsto> \<lparr> value = Some (JStr ''one''), expiresAt = 301001 \<rparr>], [])
   \<and> fst (getSecret no_builtin object_prototype 300000 env_token vault_two_paths 2000 2001 Map.empty ''a'' ''b#c'')
     = Inr (Some (JStr ''two''))"
proof -
  let ?c = "\<lparr> value = Some (JStr ''one''), expiresAt = 301001 \<rparr>"
  have h: "live_entry [''a#b#c'' \<mapsto> ?c] (cacheKey ''a#b'' ''c'') 2000 = Some ?c"
    by (simp add: live_entry_def cacheKey_def)
  have first: "getSecret no_builtin object_prototype 300000 env_token vault_two_paths 1000 1001 Map.empty ''a#b'' ''c''
     = (Inr (Some (JStr ''one'')), [''a#b#c'' \<mapsto> ?c],
        [Fetch (read_request ''http://vault:8200'' ''t'' ''a#b'')])"
    by (simp add: scenario_defs model_defs)
  have other: "fst (getSecret no_builtin object_prototype 300000 env_token vault_two_paths 2000 2001 Map.empty ''a'' ''b#c'')
     = Inr (Some (JStr ''two''))"
    by (simp add: scenario_defs model_defs)
  show ?thesis
    using cacheKey_collision
      [where cache = "[''a#b#c'' \<mapsto> ?c]" and now = 2000 and c = ?c and B = no_builtin and H = object_prototype
         and ttl = 300000 and env = env_token and fetch = vault_two_paths and later = 2001, OF h]
      first other
    by simp
qed

end
